theory Spec2Isabelle
  imports Main "HOL-Library.Word" "HOL-Library.Code_Target_Nat"
begin

section \<open>The hook \<open>useTeeProof\<close> (src/components/vana/hooks/useTeeProof.ts)\<close>

text \<open>
  The hook is a sequence of awaited calls to collaborators (wallet, chain client, the
  executor's HTTP endpoint) around two pieces of React state. The embedding makes the
  three things explicit that TypeScript leaves implicit:
  \<^item> the collaborators are an \<open>env\<close> record that says how each call answers (a value or a
    thrown value), so that every theorem quantifies over all answers;
  \<^item> the React state (\<open>isProcessing\<close>, \<open>error\<close>) is passed through every step: the values
    of the current render, which the hook exposes, and the updates that the setters have
    scheduled for the next render;
  \<^item> every call to a collaborator is written to a trace, with the React state at the
    moment of the call;
  \<^item> React may render while an awaited call is pending, never inside a synchronous
    stretch of the function; whether it does is part of \<open>env\<close>.
  \<open>console.log\<close> and \<open>console.error\<close> are left out: they neither return nor throw.
\<close>

subsection \<open>Values\<close>

text \<open>
  A JavaScript \<open>number\<close> that holds an identifier: an integer-valued double, or an
  infinity (which \<open>Number\<close> yields for a bigint beyond the range of doubles).
\<close>

datatype number = Num int | Infinity | NegInfinity

text \<open>What a JavaScript program can throw: an \<open>Error\<close> with its message, or any other value.\<close>

datatype thrown = Error string | NonError string

text \<open>
  A parsed JSON value, as \<open>response.json()\<close> resolves to. An object keeps its properties
  in their own order. A number is held as the text \<open>JSON.stringify\<close> prints for it:
  printing is all the hook does with a number of a response.
\<close>

datatype json =
    JNull
  | JBool bool
  | JNum string
  | JStr string
  | JArr "json list"
  | JObj "(string \<times> json) list"

text \<open>Truthiness of a string (\<open>''''\<close> is falsy) and of a possibly undefined string.\<close>

definition truthy :: "string \<Rightarrow> bool" where
  "truthy s = (s \<noteq> [])"

definition truthy_opt :: "string option \<Rightarrow> bool" where
  "truthy_opt a = (case a of None \<Rightarrow> False | Some s \<Rightarrow> truthy s)"

subsection \<open>\<open>Number\<close> on a bigint, \<open>toString\<close> on a timestamp, \<open>JSON.stringify\<close>\<close>

fun bit_length :: "nat \<Rightarrow> nat" where
  "bit_length n = (if n = 0 then 0 else Suc (bit_length (n div 2)))"

declare bit_length.simps [simp del]

text \<open>
  The nearest double of a natural number, ties to the even significand (53 bits).
\<close>

definition round_to_double :: "nat \<Rightarrow> nat" where
  "round_to_double a =
     (if a < 2 ^ 53 then a
      else let e = bit_length a - 53;
               q = a div 2 ^ e;
               r = a mod 2 ^ e;
               h = 2 ^ (e - 1)
           in (if h < r \<or> (r = h \<and> odd q) then q + 1 else q) * 2 ^ e)"

definition Number :: "int \<Rightarrow> number" where
  "Number n =
     (let m = round_to_double (nat \<bar>n\<bar>)
      in if 2 ^ 1024 \<le> m then (if n < 0 then NegInfinity else Infinity)
         else Num (sgn n * int m))"

definition digit_char :: "nat \<Rightarrow> char" where
  "digit_char d = ''0123456789'' ! d"

text \<open>
  The decimal digits of a natural number. This is \<open>Number.prototype.toString\<close> for the
  integers below \<open>2 ^ 53\<close> only, and it is applied to nothing else: see \<open>Date_now\<close>.
\<close>

fun decimal :: "nat \<Rightarrow> string" where
  "decimal n = (if n < 10 then [digit_char n] else decimal (n div 10) @ [digit_char (n mod 10)])"

declare decimal.simps [simp del]

definition hex_char :: "nat \<Rightarrow> char" where
  "hex_char d = ''0123456789abcdef'' ! d"

text \<open>
  \<open>QuoteJSONString\<close> of ECMAScript on a byte: the quote, the backslash and the control
  characters are escaped, every other byte is copied.
\<close>

definition quote_char :: "char \<Rightarrow> string" where
  "quote_char c =
     (if c = CHR 0x22 then [CHR 0x5C, CHR 0x22]
      else if c = CHR 0x5C then [CHR 0x5C, CHR 0x5C]
      else if c = CHR 0x08 then [CHR 0x5C, CHR ''b'']
      else if c = CHR 0x09 then [CHR 0x5C, CHR ''t'']
      else if c = CHR 0x0A then [CHR 0x5C, CHR ''n'']
      else if c = CHR 0x0C then [CHR 0x5C, CHR ''f'']
      else if c = CHR 0x0D then [CHR 0x5C, CHR ''r'']
      else if (of_char c :: nat) < 32
        then [CHR 0x5C, CHR ''u'', CHR ''0'', CHR ''0'',
              hex_char (of_char c div 16), hex_char (of_char c mod 16)]
      else [c])"

definition quote_string :: "string \<Rightarrow> string" where
  "quote_string s = [CHR 0x22] @ concat (map quote_char s) @ [CHR 0x22]"

fun join :: "string \<Rightarrow> string list \<Rightarrow> string" where
  "join sep [] = []"
| "join sep [x] = x"
| "join sep (x # y # ys) = x @ sep @ join sep (y # ys)"

definition member_text :: "string \<times> string \<Rightarrow> string" where
  "member_text kv = quote_string (fst kv) @ '':'' @ snd kv"

primrec JSON_stringify :: "json \<Rightarrow> string" where
  "JSON_stringify JNull = ''null''"
| "JSON_stringify (JBool b) = (if b then ''true'' else ''false'')"
| "JSON_stringify (JNum t) = t"
| "JSON_stringify (JStr s) = quote_string s"
| "JSON_stringify (JArr xs) = ''['' @ join '','' (map JSON_stringify xs) @ '']''"
| "JSON_stringify (JObj kvs) =
     ''{'' @ join '','' (map member_text (map (map_prod id JSON_stringify) kvs)) @ ''}''"

subsection \<open>The types of the source\<close>

record JobDetails =
  teeUrl :: string
  teePublicKey :: string
  teeAddress :: "string option"

record JobData =
  job_teeAddress :: string

record TeeData =
  url :: string
  publicKey :: string

record env_vars_t =
  USER_EMAIL :: string

record validate_permission =
  address :: string
  public_key :: string
  iv :: string
  ephemeral_key :: string

record ProofRequestBody =
  job_id :: number
  file_id :: number
  nonce :: string
  proof_url :: string
  encryption_seed :: string
  env_vars :: env_vars_t
  validate_permissions :: "validate_permission list"
  encrypted_encryption_key :: "string option"
  encryption_key :: "string option"

text \<open>What \<open>requestContributionProof\<close> returns.\<close>

record ProofResult =
  fileId :: number
  jobId :: number
  proofData :: json
  txHash :: string

subsection \<open>The collaborators\<close>

record TransactionReceipt =
  transactionHash :: string

record EncryptionParameters =
  ivHex :: string
  ephemeralKeyHex :: string

text \<open>
  A response of \<open>fetch\<close>: its status and what \<open>response.json()\<close> does (it rejects when
  the body is not JSON). \<open>response.ok\<close> is true for the statuses 200 to 299.
\<close>

record Response =
  status :: nat
  body_json :: "thrown + json"

definition ok :: "Response \<Rightarrow> bool" where
  "ok r = (200 \<le> status r \<and> status r \<le> 299)"

text \<open>
  The calls the trace records. \<open>Fetch\<close> carries the URL and the object that the source
  hands to \<open>JSON.stringify\<close> for the body of the POST.
\<close>

datatype call =
    WriteContract number
  | WaitForReceipt string
  | ReadFileJobIds number
  | ReadJobs number
  | ReadTees string
  | ReadPublicKey
  | GetEncryptionParameters
  | Fetch string ProofRequestBody
  | ResponseJson

fun is_http_call :: "call \<Rightarrow> bool" where
  "is_http_call (Fetch _ _) = True"
| "is_http_call _ = False"

text \<open>
  How the collaborators answer. \<open>readContract_jobs\<close> and \<open>readContract_tees\<close> may resolve
  to nothing (\<open>None\<close>), which the source tests with \<open>!job\<close> and \<open>!teeInfo\<close>.
  \<open>Date.now()\<close> is a time value, an integer of at most \<open>8.64e15\<close>: it is held as a
  53-bit word, so that it prints as its decimal digits on the whole type.
  \<open>rendersDuring c\<close> says whether React renders the component while the awaited call
  \<open>c\<close> is pending.
\<close>

record env =
  useAccount_address :: "string option"
  dataLiquidityPoolAddress :: string
  writeContractAsync :: "number \<Rightarrow> thrown + string"
  waitForTransactionReceipt :: "string \<Rightarrow> thrown + TransactionReceipt"
  readContract_fileJobIds :: "number \<Rightarrow> thrown + int list"
  readContract_jobs :: "number \<Rightarrow> thrown + JobData option"
  readContract_tees :: "string \<Rightarrow> thrown + TeeData option"
  readContract_publicKey :: "thrown + string"
  getEncryptionParameters :: "thrown + EncryptionParameters"
  Date_now :: "53 word"
  fetch :: "string \<Rightarrow> ProofRequestBody \<Rightarrow> thrown + Response"
  rendersDuring :: "call \<Rightarrow> bool"

subsection \<open>The React state and the steps of an async function\<close>

text \<open>
  The two \<open>useState\<close> cells of lines 63 and 64. \<open>isProcessing\<close> and \<open>error\<close> are the values
  of the current render: what the hook returns in lines 249 and 250. A setter does not
  change them: it schedules a value for the next render (\<open>next_isProcessing\<close>,
  \<open>next_error\<close>; the last value scheduled wins), and \<open>render\<close> makes the scheduled values
  the current ones.
\<close>

record hook_state =
  isProcessing :: bool
  error :: "string option"
  next_isProcessing :: "bool option"
  next_error :: "string option option"

definition render :: "hook_state \<Rightarrow> hook_state" where
  "render s =
     \<lparr>isProcessing = (case next_isProcessing s of None \<Rightarrow> isProcessing s | Some b \<Rightarrow> b),
      error = (case next_error s of None \<Rightarrow> error s | Some e \<Rightarrow> e),
      next_isProcessing = None,
      next_error = None\<rparr>"

text \<open>The state after an awaited call has settled: React has rendered meanwhile, or not.\<close>

definition after_await :: "env \<Rightarrow> call \<Rightarrow> hook_state \<Rightarrow> hook_state" where
  "after_await env c s = (if rendersDuring env c then render s else s)"

text \<open>
  A step takes the React state and gives its outcome (\<open>Inl\<close> a thrown value, \<open>Inr\<close> a
  result), the new state, and the calls it made, each with the state at that moment.
  \<open>await_call\<close> is a call whose promise the function awaits; \<open>sync_call\<close> is a call that
  returns or throws at once.
\<close>

type_synonym 'a prog = "hook_state \<Rightarrow> (thrown + 'a) \<times> hook_state \<times> (call \<times> hook_state) list"

definition ret :: "'a \<Rightarrow> 'a prog" where
  "ret x s = (Inr x, s, [])"

definition throw :: "thrown \<Rightarrow> 'a prog" where
  "throw e s = (Inl e, s, [])"

definition await_call :: "env \<Rightarrow> call \<Rightarrow> thrown + 'a \<Rightarrow> 'a prog" where
  "await_call env c answer s = (answer, after_await env c s, [(c, s)])"

definition sync_call :: "call \<Rightarrow> thrown + 'a \<Rightarrow> 'a prog" where
  "sync_call c answer s = (answer, s, [(c, s)])"

definition bind :: "'a prog \<Rightarrow> ('a \<Rightarrow> 'b prog) \<Rightarrow> 'b prog" where
  "bind m f s =
     (case m s of
        (Inl e, s', t) \<Rightarrow> (Inl e, s', t)
      | (Inr x, s', t) \<Rightarrow> (case f x s' of (r, s'', t') \<Rightarrow> (r, s'', t @ t')))"

definition catch :: "'a prog \<Rightarrow> (thrown \<Rightarrow> 'a prog) \<Rightarrow> 'a prog" where
  "catch m h s =
     (case m s of
        (Inl e, s', t) \<Rightarrow> (case h e s' of (r, s'', t') \<Rightarrow> (r, s'', t @ t'))
      | (Inr x, s', t) \<Rightarrow> (Inr x, s', t))"

definition try_finally :: "'a prog \<Rightarrow> unit prog \<Rightarrow> 'a prog" where
  "try_finally m k s =
     (case m s of (r, s', t) \<Rightarrow>
        (case k s' of
           (Inl e, s'', t') \<Rightarrow> (Inl e, s'', t @ t')
         | (Inr _, s'', t') \<Rightarrow> (r, s'', t @ t')))"

definition setIsProcessing :: "bool \<Rightarrow> unit prog" where
  "setIsProcessing b s = (Inr (), s\<lparr>next_isProcessing := Some b\<rparr>, [])"

definition setError :: "string option \<Rightarrow> unit prog" where
  "setError e s = (Inr (), s\<lparr>next_error := Some e\<rparr>, [])"

subsection \<open>The functions of the hook\<close>

text \<open>\<open>getDlpPublicKey\<close>, lines 46 to 57.\<close>

definition getDlpPublicKey :: "env \<Rightarrow> string prog" where
  "getDlpPublicKey env = await_call env ReadPublicKey (readContract_publicKey env)"

text \<open>\<open>getFileJobIds\<close>, lines 78 to 92.\<close>

definition getFileJobIds :: "env \<Rightarrow> number \<Rightarrow> number list prog" where
  "getFileJobIds env fid =
     catch
       (bind (await_call env (ReadFileJobIds fid) (readContract_fileJobIds env fid))
          (\<lambda>jobIds. ret (map Number jobIds)))
       (\<lambda>err. throw (Error ''Failed to get job IDs for file''))"

text \<open>\<open>getTeeDetails\<close>, lines 95 to 133. Both \<open>throw\<close>s are inside the \<open>try\<close>.\<close>

definition getTeeDetails :: "env \<Rightarrow> number \<Rightarrow> JobDetails prog" where
  "getTeeDetails env jid =
     catch
       (bind (await_call env (ReadJobs jid) (readContract_jobs env jid))
          (\<lambda>job.
             case job of
               None \<Rightarrow> throw (Error ''Job not found or missing TEE address'')
             | Some j \<Rightarrow>
                 if \<not> truthy (job_teeAddress j)
                 then throw (Error ''Job not found or missing TEE address'')
                 else
                   bind (await_call env (ReadTees (job_teeAddress j))
                           (readContract_tees env (job_teeAddress j)))
                     (\<lambda>teeInfo.
                        case teeInfo of
                          None \<Rightarrow> throw (Error ''TEE information not found'')
                        | Some ti \<Rightarrow>
                            ret \<lparr>teeUrl = url ti,
                                 teePublicKey = publicKey ti,
                                 teeAddress = Some (job_teeAddress j)\<rparr>)))
       (\<lambda>err. throw (Error ''Failed to get TEE details for job''))"

text \<open>The object literal of lines 183 to 201: neither key field is set yet.\<close>

definition requestBody_literal ::
  "env \<Rightarrow> number \<Rightarrow> number \<Rightarrow> string \<Rightarrow> string \<Rightarrow> string \<Rightarrow> EncryptionParameters
     \<Rightarrow> ProofRequestBody" where
  "requestBody_literal env latestJobId fid nonce_text encryptionKey dlpKey params =
     \<lparr>job_id = latestJobId,
      file_id = fid,
      nonce = nonce_text,
      proof_url = ''https://github.com/vana-com/vana-satya-proof-template/releases/download/v24/gsc-my-proof-24.tar.gz'',
      encryption_seed = encryptionKey,
      env_vars = \<lparr>USER_EMAIL = ''user@example.com''\<rparr>,
      validate_permissions =
        [\<lparr>address = dataLiquidityPoolAddress env,
          public_key = dlpKey,
          iv = ivHex params,
          ephemeral_key = ephemeralKeyHex params\<rparr>],
      encrypted_encryption_key = None,
      encryption_key = None\<rparr>"

text \<open>The assignment of lines 203 to 209.\<close>

definition add_key :: "JobDetails \<Rightarrow> string \<Rightarrow> ProofRequestBody \<Rightarrow> ProofRequestBody" where
  "add_key jobDetails encryptionKey requestBody =
     (if truthy (teePublicKey jobDetails)
      then requestBody\<lparr>encrypted_encryption_key := Some encryptionKey\<rparr>
      else requestBody\<lparr>encryption_key := Some encryptionKey\<rparr>)"

text \<open>The \<open>try\<close> block of \<open>requestContributionProof\<close>, lines 143 to 235.\<close>

definition proofProcess :: "env \<Rightarrow> number \<Rightarrow> string \<Rightarrow> ProofResult prog" where
  "proofProcess env fid encryptionKey =
     (if \<not> truthy_opt (useAccount_address env) then throw (Error ''Wallet not connected'')
      else
        bind (await_call env (WriteContract fid) (writeContractAsync env fid)) (\<lambda>hash.
        bind (await_call env (WaitForReceipt hash) (waitForTransactionReceipt env hash))
          (\<lambda>contributionProofReceipt.
        bind (getFileJobIds env fid) (\<lambda>jobIds.
        if length jobIds = 0 then throw (Error ''No jobs found for file'')
        else
          let latestJobId = jobIds ! (length jobIds - 1) in
          bind (getTeeDetails env latestJobId) (\<lambda>jobDetails.
          bind (sync_call GetEncryptionParameters (getEncryptionParameters env)) (\<lambda>params.
          let nonce_text = decimal (unat (Date_now env)) in
          bind (getDlpPublicKey env) (\<lambda>dlpKey.
          let requestBody =
                add_key jobDetails encryptionKey
                  (requestBody_literal env latestJobId fid nonce_text encryptionKey dlpKey params)
          in
          bind (await_call env (Fetch (teeUrl jobDetails @ ''/RunProof'') requestBody)
                  (fetch env (teeUrl jobDetails @ ''/RunProof'') requestBody))
            (\<lambda>contributionProofResponse.
          if \<not> ok contributionProofResponse
          then
            bind (await_call env ResponseJson (body_json contributionProofResponse)) (\<lambda>errorData.
            throw (Error (''TEE request failed: '' @ JSON_stringify errorData)))
          else
            bind (await_call env ResponseJson (body_json contributionProofResponse)) (\<lambda>data.
            ret \<lparr>fileId = fid,
                 jobId = latestJobId,
                 proofData = data,
                 txHash = transactionHash contributionProofReceipt\<rparr>)))))))))"

text \<open>The \<open>catch\<close> block, lines 236 to 241.\<close>

definition on_error :: "thrown \<Rightarrow> ProofResult prog" where
  "on_error err =
     bind (setError (Some (case err of Error message \<Rightarrow> message
                                     | NonError _ \<Rightarrow> ''Failed to process TEE proof'')))
       (\<lambda>_. throw err)"

text \<open>\<open>requestContributionProof\<close>, lines 136 to 245.\<close>

definition requestContributionProof :: "env \<Rightarrow> number \<Rightarrow> string \<Rightarrow> ProofResult prog" where
  "requestContributionProof env fid encryptionKey =
     bind (setIsProcessing True) (\<lambda>_.
     bind (setError None) (\<lambda>_.
     try_finally (catch (proofProcess env fid encryptionKey) on_error)
       (setIsProcessing False)))"

text \<open>
  The value the hook exposes as \<open>isProcessing\<close>, line 249, in the render with the state
  \<open>s\<close>; \<open>isPending\<close> is the flag of \<open>useWriteContract\<close>.
\<close>

definition exposed_isProcessing :: "hook_state \<Rightarrow> bool \<Rightarrow> bool" where
  "exposed_isProcessing s isPending = (isProcessing s \<or> isPending)"

subsection \<open>Auxiliary notions for the statements\<close>

text \<open>The state right after the two setters of lines 140 and 141.\<close>

definition started :: "hook_state \<Rightarrow> hook_state" where
  "started s = s\<lparr>next_isProcessing := Some True, next_error := Some None\<rparr>"

text \<open>The message that the \<open>catch\<close> block of line 238 records for a thrown value.\<close>

definition recorded_message :: "thrown \<Rightarrow> string" where
  "recorded_message err =
     (case err of Error message \<Rightarrow> message | NonError _ \<Rightarrow> ''Failed to process TEE proof'')"

text \<open>
  A step is steady when it calls no setter: the state of the next render is the same
  before it, after it and at every call it makes. The whole \<open>try\<close> block is steady: the
  setters are called before it, in the \<open>catch\<close> block and in the \<open>finally\<close> block only.
\<close>

definition steady :: "'a prog \<Rightarrow> bool" where
  "steady m =
     (\<forall>s. render (fst (snd (m s))) = render s \<and>
          (\<forall>x \<in> set (snd (snd (m s))). render (snd x) = render s))"

text \<open>Containment of a text in another, and ASCII lower case, to compare messages.\<close>

definition lower_char :: "char \<Rightarrow> char" where
  "lower_char c =
     (case map_of (zip ''ABCDEFGHIJKLMNOPQRSTUVWXYZ'' ''abcdefghijklmnopqrstuvwxyz'') c of
        None \<Rightarrow> c
      | Some l \<Rightarrow> l)"

fun starts_with :: "string \<Rightarrow> string \<Rightarrow> bool" where
  "starts_with [] ys = True"
| "starts_with (x # xs) [] = False"
| "starts_with (x # xs) (y # ys) = (x = y \<and> starts_with xs ys)"

fun contains_text :: "string \<Rightarrow> string \<Rightarrow> bool" where
  "contains_text n [] = (n = [])"
| "contains_text n (y # ys) = (starts_with n (y # ys) \<or> contains_text n ys)"

subsection \<open>Concrete collaborators\<close>

text \<open>
  A file with the jobs 7, 3 and 5 (in this order), an executor with a public key, an
  executor endpoint that answers 200 with the body \<open>{"ok":true}\<close>, and a React that
  renders while each awaited call is pending.
\<close>

definition sample_env :: env where
  "sample_env =
     \<lparr>useAccount_address = Some ''0xA11CE'',
      dataLiquidityPoolAddress = ''0xD1F'',
      writeContractAsync = (\<lambda>_. Inr ''0x7A5''),
      waitForTransactionReceipt = (\<lambda>h. Inr \<lparr>transactionHash = h\<rparr>),
      readContract_fileJobIds = (\<lambda>_. Inr [7, 3, 5]),
      readContract_jobs = (\<lambda>_. Inr (Some \<lparr>job_teeAddress = ''0x7EE''\<rparr>)),
      readContract_tees =
        (\<lambda>_. Inr (Some \<lparr>url = ''https://tee.example'', publicKey = ''04ab''\<rparr>)),
      readContract_publicKey = Inr ''pk'',
      getEncryptionParameters = Inr \<lparr>ivHex = ''aa'', ephemeralKeyHex = ''bb''\<rparr>,
      Date_now = 1700000000000,
      fetch = (\<lambda>_ _. Inr \<lparr>status = 200, body_json = Inr (JObj [(''ok'', JBool True)])\<rparr>),
      rendersDuring = (\<lambda>_. True)\<rparr>"

text \<open>Variations of it, one collaborator changed in each.\<close>

definition env_no_wallet :: env where
  "env_no_wallet = sample_env\<lparr>useAccount_address := None\<rparr>"

definition env_no_jobs :: env where
  "env_no_jobs = sample_env\<lparr>readContract_fileJobIds := (\<lambda>_. Inr [])\<rparr>"

definition env_no_tee_key :: env where
  "env_no_tee_key =
     sample_env\<lparr>readContract_tees :=
       (\<lambda>_. Inr (Some \<lparr>url = ''https://tee.example'', publicKey = []\<rparr>))\<rparr>"

definition env_job_missing :: env where
  "env_job_missing = sample_env\<lparr>readContract_jobs := (\<lambda>_. Inr None)\<rparr>"

definition env_job_without_tee :: env where
  "env_job_without_tee =
     sample_env\<lparr>readContract_jobs := (\<lambda>_. Inr (Some \<lparr>job_teeAddress = []\<rparr>))\<rparr>"

definition env_tee_missing :: env where
  "env_tee_missing = sample_env\<lparr>readContract_tees := (\<lambda>_. Inr None)\<rparr>"

definition env_read_fails :: env where
  "env_read_fails =
     sample_env\<lparr>readContract_jobs := (\<lambda>_. Inl (Error ''execution reverted''))\<rparr>"




definition env_status_204_empty :: env where
  "env_status_204_empty =
     sample_env\<lparr>fetch :=
       (\<lambda>_ _. Inr \<lparr>status = 204, body_json = Inl (Error ''Unexpected end of JSON input'')\<rparr>)\<rparr>"

definition env_fetch_rejects :: env where
  "env_fetch_rejects = sample_env\<lparr>fetch := (\<lambda>_ _. Inl (NonError ''aborted''))\<rparr>"

text \<open>
  States: nothing going on; a render with the flag set; a render after a failure. Then
  the states a call that went through at least one render ends in: after a return, and
  after a throw with a message.
\<close>

definition idle :: hook_state where
  "idle = \<lparr>isProcessing = False, error = None, next_isProcessing = None, next_error = None\<rparr>"

definition busy :: hook_state where
  "busy = \<lparr>isProcessing = True, error = None, next_isProcessing = None, next_error = None\<rparr>"

definition failed :: "string \<Rightarrow> hook_state" where
  "failed m =
     \<lparr>isProcessing = False, error = Some m, next_isProcessing = None, next_error = None\<rparr>"

definition returned :: hook_state where
  "returned = busy\<lparr>next_isProcessing := Some False\<rparr>"

definition threw :: "string \<Rightarrow> hook_state" where
  "threw m = busy\<lparr>next_isProcessing := Some False, next_error := Some (Some m)\<rparr>"

definition sample_body :: "string option \<Rightarrow> string option \<Rightarrow> ProofRequestBody" where
  "sample_body enc plain =
     \<lparr>job_id = Num 5, file_id = Num 42, nonce = ''1700000000000'',
      proof_url = ''https://github.com/vana-com/vana-satya-proof-template/releases/download/v24/gsc-my-proof-24.tar.gz'',
      encryption_seed = ''key'',
      env_vars = \<lparr>USER_EMAIL = ''user@example.com''\<rparr>,
      validate_permissions =
        [\<lparr>address = ''0xD1F'', public_key = ''pk'', iv = ''aa'', ephemeral_key = ''bb''\<rparr>],
      encrypted_encryption_key = enc, encryption_key = plain\<rparr>"

text \<open>
  The calls of a run that starts in the state \<open>s\<close>: the first call is made before React
  can render, the others after it has.
\<close>

definition calls_to_jobs :: "hook_state \<Rightarrow> (call \<times> hook_state) list" where
  "calls_to_jobs s =
     [(WriteContract (Num 42), started s),
      (WaitForReceipt ''0x7A5'', busy),
      (ReadFileJobIds (Num 42), busy),
      (ReadJobs (Num 5), busy)]"

definition calls_to_fetch :: "hook_state \<Rightarrow> ProofRequestBody \<Rightarrow> (call \<times> hook_state) list" where
  "calls_to_fetch s b =
     calls_to_jobs s @
     [(ReadTees ''0x7EE'', busy),
      (GetEncryptionParameters, busy),
      (ReadPublicKey, busy),
      (Fetch ''https://tee.example/RunProof'' b, busy)]"

definition sample_result :: ProofResult where
  "sample_result =
     \<lparr>fileId = Num 42, jobId = Num 5, proofData = JObj [(''ok'', JBool True)],
      txHash = ''0x7A5''\<rparr>"

section \<open>General facts about the steps\<close>

lemmas prog_defs = ret_def throw_def await_call_def sync_call_def bind_def catch_def

lemma render_render: "render (render s) = render s"
  by (simp add: render_def)

lemma render_after_await: "render (after_await env c s) = render s"
  by (simp add: after_await_def render_render)

lemma render_started:
  "isProcessing (render (started s))" "error (render (started s)) = None"
  by (simp_all add: render_def started_def)

lemma steadyD:
  assumes "steady m" and "m s = (r, s', t)"
  shows "render s' = render s" and "x \<in> set t \<Longrightarrow> render (snd x) = render s"
  using assms unfolding steady_def by (metis fst_conv snd_conv)+

lemma steady_ret: "steady (ret x)"
  by (simp add: steady_def ret_def)

lemma steady_throw: "steady (throw e)"
  by (simp add: steady_def throw_def)

lemma steady_await_call: "steady (await_call env c a)"
  by (simp add: steady_def await_call_def render_after_await)

lemma steady_sync_call: "steady (sync_call c a)"
  by (simp add: steady_def sync_call_def)

lemma steady_bind:
  assumes "steady m" and "\<And>x. steady (f x)"
  shows "steady (bind m f)"
  unfolding steady_def
proof (intro allI)
  fix s
  obtain r s' t where m: "m s = (r, s', t)" by (cases "m s")
  from steadyD [OF assms(1) m]
  have s': "render s' = render s" and t: "\<forall>x \<in> set t. render (snd x) = render s" by auto
  show "render (fst (snd (bind m f s))) = render s \<and>
        (\<forall>x \<in> set (snd (snd (bind m f s))). render (snd x) = render s)"
  proof (cases r)
    case (Inl e)
    with m s' t show ?thesis by (simp add: bind_def)
  next
    case (Inr v)
    obtain r2 s2 t2 where f: "f v s' = (r2, s2, t2)" by (cases "f v s'")
    from steadyD [OF assms(2) f] s'
    have "render s2 = render s" and "\<forall>x \<in> set t2. render (snd x) = render s" by auto
    with m t Inr f show ?thesis by (auto simp add: bind_def)
  qed
qed

lemma steady_catch:
  assumes "steady m" and "\<And>e. steady (h e)"
  shows "steady (catch m h)"
  unfolding steady_def
proof (intro allI)
  fix s
  obtain r s' t where m: "m s = (r, s', t)" by (cases "m s")
  from steadyD [OF assms(1) m]
  have s': "render s' = render s" and t: "\<forall>x \<in> set t. render (snd x) = render s" by auto
  show "render (fst (snd (catch m h s))) = render s \<and>
        (\<forall>x \<in> set (snd (snd (catch m h s))). render (snd x) = render s)"
  proof (cases r)
    case (Inr v)
    with m s' t show ?thesis by (simp add: catch_def)
  next
    case (Inl e)
    obtain r2 s2 t2 where f: "h e s' = (r2, s2, t2)" by (cases "h e s'")
    from steadyD [OF assms(2) f] s'
    have "render s2 = render s" and "\<forall>x \<in> set t2. render (snd x) = render s" by auto
    with m t Inl f show ?thesis by (auto simp add: catch_def)
  qed
qed

lemma steady_if: "steady a \<Longrightarrow> steady b \<Longrightarrow> steady (if c then a else b)"
  by simp

lemma steady_getFileJobIds: "steady (getFileJobIds env fid)"
  unfolding getFileJobIds_def
  by (intro steady_catch steady_bind steady_await_call steady_ret steady_throw)

lemma steady_getTeeDetails: "steady (getTeeDetails env jid)"
  unfolding getTeeDetails_def
  by (intro steady_catch steady_bind steady_await_call steady_throw)
     (auto split: option.split intro!: steady_bind steady_await_call steady_throw steady_ret)

lemma steady_proofProcess: "steady (proofProcess env fid k)"
  unfolding proofProcess_def Let_def getDlpPublicKey_def
  by (intro steady_if steady_bind steady_await_call steady_sync_call steady_throw steady_ret
        steady_getFileJobIds steady_getTeeDetails)

text \<open>
  The whole function in terms of its \<open>try\<close> block: the block runs in the state in which
  the flag and the cleared error are scheduled, its outcome is the outcome of the call,
  and the \<open>catch\<close> and \<open>finally\<close> blocks schedule the last updates.
\<close>

lemma run_shape:
  assumes "requestContributionProof env fid k s = (r, s', t)"
  shows "\<exists>s1. proofProcess env fid k (started s) = (r, s1, t) \<and>
              render s1 = render (started s) \<and>
              s' = (case r of
                      Inr _ \<Rightarrow> s1\<lparr>next_isProcessing := Some False\<rparr>
                    | Inl e \<Rightarrow> s1\<lparr>next_error := Some (Some (recorded_message e)),
                                  next_isProcessing := Some False\<rparr>)"
proof -
  obtain r1 s1 t1 where p: "proofProcess env fid k (started s) = (r1, s1, t1)"
    by (cases "proofProcess env fid k (started s)")
  from steadyD(1) [OF steady_proofProcess p] have "render s1 = render (started s)" .
  with p assms show ?thesis
    by (cases r1)
       (auto simp add: requestContributionProof_def bind_def setIsProcessing_def setError_def
          try_finally_def catch_def on_error_def throw_def started_def recorded_message_def)
qed

text \<open>After the render that follows the call, the flag is cleared and the error is set.\<close>

lemma run_final:
  assumes "requestContributionProof env fid k s = (r, s', t)"
  shows "\<not> isProcessing (render s')"
    and "error (render s') = (case r of Inr _ \<Rightarrow> None | Inl e \<Rightarrow> Some (recorded_message e))"
proof -
  from run_shape [OF assms] obtain s1 where
    s1: "render s1 = render (started s)"
    and s': "s' = (case r of
                      Inr _ \<Rightarrow> s1\<lparr>next_isProcessing := Some False\<rparr>
                    | Inl e \<Rightarrow> s1\<lparr>next_error := Some (Some (recorded_message e)),
                                  next_isProcessing := Some False\<rparr>)"
    by blast
  from s' show "\<not> isProcessing (render s')"
    by (cases r) (simp_all add: render_def split: option.splits)
  from s1 render_started(2) [of s] have "error (render s1) = None" by simp
  with s' show "error (render s') = (case r of Inr _ \<Rightarrow> None | Inl e \<Rightarrow> Some (recorded_message e))"
    by (cases r) (auto simp add: render_def split: option.splits)
qed

text \<open>The first call of the \<open>try\<close> block is made in the state the block starts in.\<close>

lemma proofProcess_first_call:
  assumes "proofProcess env fid k s = (r, s', t)" and "t \<noteq> []"
  shows "hd t = (WriteContract fid, s)"
  using assms
  by (auto simp add: proofProcess_def bind_def await_call_def throw_def
        split: if_splits sum.splits prod.splits)

text \<open>What a call in the trace of the \<open>try\<close> block says about the path taken.\<close>

lemma proofProcess_fetch:
  assumes "proofProcess env fid k s = (r, s', t)" and "(Fetch u b, st) \<in> set t"
  shows "\<exists>h rc bigs j ti params dlpKey.
           truthy_opt (useAccount_address env) \<and>
           writeContractAsync env fid = Inr h \<and>
           waitForTransactionReceipt env h = Inr rc \<and>
           readContract_fileJobIds env fid = Inr bigs \<and> bigs \<noteq> [] \<and>
           readContract_jobs env (last (map Number bigs)) = Inr (Some j) \<and>
           truthy (job_teeAddress j) \<and>
           readContract_tees env (job_teeAddress j) = Inr (Some ti) \<and>
           getEncryptionParameters env = Inr params \<and>
           readContract_publicKey env = Inr dlpKey \<and>
           u = url ti @ ''/RunProof'' \<and>
           b = add_key \<lparr>teeUrl = url ti, teePublicKey = publicKey ti,
                          teeAddress = Some (job_teeAddress j)\<rparr> k
                 (requestBody_literal env (last (map Number bigs)) fid
                    (decimal (unat (Date_now env))) k dlpKey params) \<and>
           r = (case fetch env u b of
                  Inl e \<Rightarrow> Inl e
                | Inr resp \<Rightarrow>
                    (case body_json resp of
                       Inl e \<Rightarrow> Inl e
                     | Inr body \<Rightarrow>
                         if ok resp
                         then Inr \<lparr>fileId = fid, jobId = last (map Number bigs),
                                   proofData = body, txHash = transactionHash rc\<rparr>
                         else Inl (Error (''TEE request failed: '' @ JSON_stringify body))))"
  using assms
  unfolding proofProcess_def getFileJobIds_def getTeeDetails_def getDlpPublicKey_def Let_def
  by (auto simp add: prog_defs last_conv_nth split: if_splits sum.splits option.splits prod.splits)

lemma proofProcess_readJobs:
  assumes "proofProcess env fid k s = (r, s', t)" and "(ReadJobs j, st) \<in> set t"
  shows "\<exists>bigs. readContract_fileJobIds env fid = Inr bigs \<and> bigs \<noteq> [] \<and>
           j = last (map Number bigs)"
  using assms
  unfolding proofProcess_def getFileJobIds_def getTeeDetails_def getDlpPublicKey_def Let_def
  by (auto simp add: prog_defs last_conv_nth split: if_splits sum.splits option.splits prod.splits)

lemma proofProcess_Inr:
  assumes "proofProcess env fid k s = (Inr res, s', t)"
  shows "\<exists>h rc bigs u b st resp body.
           writeContractAsync env fid = Inr h \<and>
           waitForTransactionReceipt env h = Inr rc \<and>
           readContract_fileJobIds env fid = Inr bigs \<and> bigs \<noteq> [] \<and>
           (Fetch u b, st) \<in> set t \<and>
           fetch env u b = Inr resp \<and> ok resp \<and> body_json resp = Inr body \<and>
           res = \<lparr>fileId = fid, jobId = last (map Number bigs), proofData = body,
                   txHash = transactionHash rc\<rparr>"
  using assms
  unfolding proofProcess_def getFileJobIds_def getTeeDetails_def getDlpPublicKey_def Let_def
  by (auto simp add: prog_defs last_conv_nth split: if_splits sum.splits option.splits prod.splits)

lemma proofProcess_no_jobs:
  assumes "proofProcess env fid k s = (r, s', t)" and "(ReadFileJobIds f, st) \<in> set t"
    and "readContract_fileJobIds env fid = Inr []"
  shows "r = Inl (Error ''No jobs found for file'')"
  using assms
  unfolding proofProcess_def getFileJobIds_def getTeeDetails_def getDlpPublicKey_def Let_def
  by (auto simp add: prog_defs split: if_splits sum.splits option.splits prod.splits)

lemma proofProcess_reaches_jobs:
  assumes "proofProcess env fid k s = (r, s', t)"
    and "truthy_opt (useAccount_address env)"
    and "writeContractAsync env fid = Inr h"
    and "waitForTransactionReceipt env h = Inr rc"
    and "readContract_fileJobIds env fid = Inr bigs" and "bigs \<noteq> []"
  shows "ReadJobs (last (map Number bigs)) \<in> fst ` set t"
  using assms
  unfolding proofProcess_def getFileJobIds_def getTeeDetails_def getDlpPublicKey_def Let_def
  by (auto simp add: prog_defs last_conv_nth split: if_splits sum.splits option.splits prod.splits)

text \<open>Whatever goes wrong inside \<open>getTeeDetails\<close>, one message leaves it.\<close>

lemma getTeeDetails_throws_one_message:
  assumes "getTeeDetails env jid s = (Inl e, s', t)"
  shows "e = Error ''Failed to get TEE details for job''"
  using assms unfolding getTeeDetails_def
  by (auto simp add: prog_defs split: if_splits sum.splits option.splits prod.splits)

text \<open>
  \<open>getFileJobIds\<close> returns the answer of the contract, each bigint converted by \<open>Number\<close>,
  in the order of the answer.
\<close>

lemma getFileJobIds_Inr:
  "getFileJobIds env fid s0 = (Inr ids, s1, t1) \<longleftrightarrow>
     (\<exists>bigs. readContract_fileJobIds env fid = Inr bigs \<and> ids = map Number bigs \<and>
        s1 = after_await env (ReadFileJobIds fid) s0 \<and> t1 = [(ReadFileJobIds fid, s0)])"
  by (auto simp add: getFileJobIds_def prog_defs split: sum.splits)

lemma add_key_fields:
  "encrypted_encryption_key (add_key d k (requestBody_literal env j f n k p q)) =
     (if truthy (teePublicKey d) then Some k else None)"
  "encryption_key (add_key d k (requestBody_literal env j f n k p q)) =
     (if truthy (teePublicKey d) then None else Some k)"
  "job_id (add_key d k (requestBody_literal env j f n k p q)) = j"
  "encryption_seed (add_key d k (requestBody_literal env j f n k p q)) = k"
  by (simp_all add: add_key_def requestBody_literal_def)

text \<open>The outcome of a run that sent a request, in terms of the request and its answer.\<close>

lemma proofProcess_fetch_outcome:
  assumes "proofProcess env fid k s = (r, s', t)" and "(Fetch u b, st) \<in> set t"
  shows "\<exists>h rc. writeContractAsync env fid = Inr h \<and>
           waitForTransactionReceipt env h = Inr rc \<and>
           r = (case fetch env u b of
                  Inl e \<Rightarrow> Inl e
                | Inr resp \<Rightarrow>
                    (case body_json resp of
                       Inl e \<Rightarrow> Inl e
                     | Inr body \<Rightarrow>
                         if ok resp
                         then Inr \<lparr>fileId = fid, jobId = job_id b,
                                   proofData = body, txHash = transactionHash rc\<rparr>
                         else Inl (Error (''TEE request failed: '' @ JSON_stringify body))))"
  using proofProcess_fetch [OF assms]
proof (elim exE conjE)
  fix h rc bigs j ti params dlpKey
  assume h: "writeContractAsync env fid = Inr h"
    and rc: "waitForTransactionReceipt env h = Inr rc"
    and b: "b = add_key \<lparr>teeUrl = url ti, teePublicKey = publicKey ti,
                          teeAddress = Some (job_teeAddress j)\<rparr> k
                 (requestBody_literal env (last (map Number bigs)) fid
                    (decimal (unat (Date_now env))) k dlpKey params)"
    and r: "r = (case fetch env u b of
                  Inl e \<Rightarrow> Inl e
                | Inr resp \<Rightarrow>
                    (case body_json resp of
                       Inl e \<Rightarrow> Inl e
                     | Inr body \<Rightarrow>
                         if ok resp
                         then Inr \<lparr>fileId = fid, jobId = last (map Number bigs),
                                   proofData = body, txHash = transactionHash rc\<rparr>
                         else Inl (Error (''TEE request failed: '' @ JSON_stringify body))))"
  from b have j: "job_id b = last (map Number bigs)" by (simp add: add_key_fields)
  from r have "r = (case fetch env u b of
                  Inl e \<Rightarrow> Inl e
                | Inr resp \<Rightarrow>
                    (case body_json resp of
                       Inl e \<Rightarrow> Inl e
                     | Inr body \<Rightarrow>
                         if ok resp
                         then Inr \<lparr>fileId = fid, jobId = job_id b,
                                   proofData = body, txHash = transactionHash rc\<rparr>
                         else Inl (Error (''TEE request failed: '' @ JSON_stringify body))))"
    unfolding j .
  with h rc show ?thesis by (intro exI conjI)
qed




section \<open>The concrete runs\<close>

lemma Number_small: "\<bar>n\<bar> < 2 ^ 53 \<Longrightarrow> Number n = Num n"
  by (auto simp add: Number_def round_to_double_def Let_def sgn_if)

lemma decimal_sample: "decimal 1700000000000 = ''1700000000000''"
  by (simp add: decimal.simps digit_char_def)

lemmas run_defs =
  requestContributionProof_def proofProcess_def getFileJobIds_def getTeeDetails_def
  getDlpPublicKey_def on_error_def try_finally_def setIsProcessing_def setError_def
  requestBody_literal_def add_key_def truthy_def truthy_opt_def ok_def Let_def
  after_await_def render_def

lemmas sample_defs =
  sample_env_def idle_def busy_def failed_def returned_def threw_def started_def
  sample_body_def calls_to_jobs_def calls_to_fetch_def sample_result_def

lemma sample_run:
  "requestContributionProof sample_env (Num 42) ''key'' idle =
     (Inr sample_result, returned,
      calls_to_fetch idle (sample_body (Some ''key'') None) @ [(ResponseJson, busy)])"
  by (simp add: run_defs prog_defs sample_defs Number_small decimal_sample)

lemma no_tee_key_run:
  "requestContributionProof env_no_tee_key (Num 42) ''key'' idle =
     (Inr sample_result, returned,
      calls_to_fetch idle (sample_body None (Some ''key'')) @ [(ResponseJson, busy)])"
  by (simp add: run_defs prog_defs sample_defs env_no_tee_key_def Number_small decimal_sample)

lemma no_jobs_run:
  "requestContributionProof env_no_jobs (Num 42) ''key'' idle =
     (Inl (Error ''No jobs found for file''), threw ''No jobs found for file'',
      [(WriteContract (Num 42), started idle), (WaitForReceipt ''0x7A5'', busy),
       (ReadFileJobIds (Num 42), busy)])"
  by (simp add: run_defs prog_defs sample_defs env_no_jobs_def)

lemma tee_missing_run:
  "requestContributionProof env_tee_missing (Num 42) ''key'' idle =
     (Inl (Error ''Failed to get TEE details for job''),
      threw ''Failed to get TEE details for job'',
      calls_to_jobs idle @ [(ReadTees ''0x7EE'', busy)])"
  by (simp add: run_defs prog_defs sample_defs env_tee_missing_def Number_small)

lemma job_missing_run:
  "requestContributionProof env_job_missing (Num 42) ''key'' idle =
     (Inl (Error ''Failed to get TEE details for job''),
      threw ''Failed to get TEE details for job'', calls_to_jobs idle)"
  by (simp add: run_defs prog_defs sample_defs env_job_missing_def Number_small)

lemma job_without_tee_run:
  "requestContributionProof env_job_without_tee (Num 42) ''key'' idle =
     (Inl (Error ''Failed to get TEE details for job''),
      threw ''Failed to get TEE details for job'', calls_to_jobs idle)"
  by (simp add: run_defs prog_defs sample_defs env_job_without_tee_def Number_small)

lemma read_fails_run:
  "requestContributionProof env_read_fails (Num 42) ''key'' idle =
     (Inl (Error ''Failed to get TEE details for job''),
      threw ''Failed to get TEE details for job'', calls_to_jobs idle)"
  by (simp add: run_defs prog_defs sample_defs env_read_fails_def Number_small)



lemma status_204_empty_run:
  "requestContributionProof env_status_204_empty (Num 42) ''key'' idle =
     (Inl (Error ''Unexpected end of JSON input''), threw ''Unexpected end of JSON input'',
      calls_to_fetch idle (sample_body (Some ''key'') None) @ [(ResponseJson, busy)])"
  by (simp add: run_defs prog_defs sample_defs env_status_204_empty_def Number_small
        decimal_sample)

lemma fetch_rejects_run:
  "requestContributionProof env_fetch_rejects (Num 42) ''key'' (failed ''earlier failure'') =
     (Inl (NonError ''aborted''), threw ''Failed to process TEE proof'',
      calls_to_fetch (failed ''earlier failure'') (sample_body (Some ''key'') None))"
  by (simp add: run_defs prog_defs sample_defs env_fetch_rejects_def Number_small decimal_sample)


lemma fetch_in_calls:
  "(Fetch ''https://tee.example/RunProof'' b, busy) \<in> set (calls_to_fetch s b @ rest)"
  by (simp add: calls_to_fetch_def)

section \<open>The properties of the specification\<close>

text \<open>
  C1. Whenever \<open>requestContributionProof\<close> sends a request to the executor, the object it
  sends has exactly one of the fields \<open>encrypted_encryption_key\<close> and \<open>encryption_key\<close>
  (never both, never neither), and it has \<open>encrypted_encryption_key\<close> exactly when the
  public key resolved for the executor of the job is present (a non-empty string).
\<close>

theorem payload_has_exactly_one_key_field:
  assumes "requestContributionProof env fid k s = (r, s', t)"
    and "(Fetch u b, st) \<in> set t"
  shows "(encrypted_encryption_key b = None) \<noteq> (encryption_key b = None) \<and>
         (\<exists>j ti. readContract_jobs env (job_id b) = Inr (Some j) \<and>
                  readContract_tees env (job_teeAddress j) = Inr (Some ti) \<and>
                  (encrypted_encryption_key b \<noteq> None) = truthy (publicKey ti))"
proof -
  from run_shape [OF assms(1)] obtain s1
    where "proofProcess env fid k (started s) = (r, s1, t)" by blast
  from proofProcess_fetch [OF this assms(2)] show ?thesis
    by (auto simp add: add_key_fields)
qed

theorem payload_has_exactly_one_key_field_witness:
  "requestContributionProof env_no_tee_key (Num 42) ''key'' idle =
     (Inr sample_result, returned,
      calls_to_fetch idle (sample_body None (Some ''key'')) @ [(ResponseJson, busy)]) \<and>
   (Fetch ''https://tee.example/RunProof'' (sample_body None (Some ''key'')), busy)
     \<in> set (calls_to_fetch idle (sample_body None (Some ''key'')) @ [(ResponseJson, busy)]) \<and>
   (encrypted_encryption_key (sample_body None (Some ''key'')) = None)
     \<noteq> (encryption_key (sample_body None (Some ''key'')) = None) \<and>
   (\<exists>j ti. readContract_jobs env_no_tee_key (job_id (sample_body None (Some ''key'')))
              = Inr (Some j) \<and>
            readContract_tees env_no_tee_key (job_teeAddress j) = Inr (Some ti) \<and>
            (encrypted_encryption_key (sample_body None (Some ''key'')) \<noteq> None)
              = truthy (publicKey ti))"
  using payload_has_exactly_one_key_field [OF no_tee_key_run fetch_in_calls]
    no_tee_key_run fetch_in_calls
  by blast

text \<open>
  C2. When \<open>getFileJobIds\<close> returns a non-empty sequence for the file,
  \<open>requestContributionProof\<close> takes its last element as the job, whatever the numeric
  order of the elements: every lookup of a job, the \<open>job_id\<close> of every request sent and
  the \<open>jobId\<close> of the result are that element, and the lookup is made as soon as the
  wallet is connected and the transaction is confirmed.
\<close>

theorem latest_job_is_last_element:
  assumes "requestContributionProof env fid k s = (r, s', t)"
    and "getFileJobIds env fid s0 = (Inr jobIds, s1, t1)"
    and "jobIds \<noteq> []"
  shows "(\<forall>x \<in> set t. \<forall>j. fst x = ReadJobs j \<longrightarrow> j = last jobIds) \<and>
         (\<forall>x \<in> set t. \<forall>u b. fst x = Fetch u b \<longrightarrow> job_id b = last jobIds) \<and>
         (\<forall>res. r = Inr res \<longrightarrow> jobId res = last jobIds) \<and>
         (truthy_opt (useAccount_address env) \<and>
          (\<exists>h rc. writeContractAsync env fid = Inr h \<and>
                   waitForTransactionReceipt env h = Inr rc)
            \<longrightarrow> ReadJobs (last jobIds) \<in> fst ` set t)"
proof -
  from run_shape [OF assms(1)] obtain s2
    where p: "proofProcess env fid k (started s) = (r, s2, t)" by blast
  from assms(2) obtain bigs where
    bigs: "readContract_fileJobIds env fid = Inr bigs" "jobIds = map Number bigs"
    by (auto simp add: getFileJobIds_Inr)
  with assms(3) have ne: "bigs \<noteq> []" by auto
  have a: "\<forall>x \<in> set t. \<forall>j. fst x = ReadJobs j \<longrightarrow> j = last jobIds"
  proof (intro ballI allI impI)
    fix x j assume "x \<in> set t" "fst x = ReadJobs j"
    then have "(ReadJobs j, snd x) \<in> set t" by (metis prod.collapse)
    from proofProcess_readJobs [OF p this] bigs show "j = last jobIds" by auto
  qed
  have f: "job_id b = last jobIds" if "(Fetch u b, st) \<in> set t" for u b st
    using proofProcess_fetch [OF p that] bigs by (auto simp add: add_key_fields)
  have b: "\<forall>x \<in> set t. \<forall>u b. fst x = Fetch u b \<longrightarrow> job_id b = last jobIds"
  proof (intro ballI allI impI)
    fix x u b assume "x \<in> set t" "fst x = Fetch u b"
    then have "(Fetch u b, snd x) \<in> set t" by (metis prod.collapse)
    then show "job_id b = last jobIds" by (rule f)
  qed
  have c: "\<forall>res. r = Inr res \<longrightarrow> jobId res = last jobIds"
  proof (intro allI impI)
    fix res assume r: "r = Inr res"
    with p have "proofProcess env fid k (started s) = (Inr res, s2, t)" by simp
    from proofProcess_Inr [OF this] bigs show "jobId res = last jobIds" by auto
  qed
  have d: "truthy_opt (useAccount_address env) \<and>
          (\<exists>h rc. writeContractAsync env fid = Inr h \<and>
                   waitForTransactionReceipt env h = Inr rc)
            \<longrightarrow> ReadJobs (last jobIds) \<in> fst ` set t"
  proof (intro impI, elim conjE exE)
    fix h rc
    assume "truthy_opt (useAccount_address env)" "writeContractAsync env fid = Inr h"
      "waitForTransactionReceipt env h = Inr rc"
    from proofProcess_reaches_jobs [OF p this bigs(1) ne] bigs(2)
    show "ReadJobs (last jobIds) \<in> fst ` set t" by simp
  qed
  from a b c d show ?thesis by blast
qed

theorem latest_job_is_last_element_witness:
  "getFileJobIds sample_env (Num 42) busy
     = (Inr [Num 7, Num 3, Num 5], busy, [(ReadFileJobIds (Num 42), busy)]) \<and>
   [Num 7, Num 3, Num 5] \<noteq> [] \<and>
   last [Num 7, Num 3, Num 5] = Num 5 \<and>
   requestContributionProof sample_env (Num 42) ''key'' idle =
     (Inr sample_result, returned,
      calls_to_fetch idle (sample_body (Some ''key'') None) @ [(ResponseJson, busy)]) \<and>
   ReadJobs (Num 5)
     \<in> fst ` set (calls_to_fetch idle (sample_body (Some ''key'') None)
                    @ [(ResponseJson, busy)]) \<and>
   list_all (\<lambda>x. \<forall>j. fst x = ReadJobs j \<longrightarrow> j = Num 5)
     (calls_to_fetch idle (sample_body (Some ''key'') None) @ [(ResponseJson, busy)]) \<and>
   list_all (\<lambda>x. \<forall>u b. fst x = Fetch u b \<longrightarrow> job_id b = Num 5)
     (calls_to_fetch idle (sample_body (Some ''key'') None) @ [(ResponseJson, busy)]) \<and>
   jobId sample_result = Num 5"
proof -
  have ids: "getFileJobIds sample_env (Num 42) busy
     = (Inr [Num 7, Num 3, Num 5], busy, [(ReadFileJobIds (Num 42), busy)])"
    by (simp add: getFileJobIds_def prog_defs sample_env_def Number_small after_await_def
          render_def busy_def)
  have ne: "[Num 7, Num 3, Num 5] \<noteq> []" by simp
  have pre: "truthy_opt (useAccount_address sample_env) \<and>
          (\<exists>h rc. writeContractAsync sample_env (Num 42) = Inr h \<and>
                   waitForTransactionReceipt sample_env h = Inr rc)"
    by (simp add: sample_env_def truthy_opt_def truthy_def)
  from latest_job_is_last_element [OF sample_run ids ne] pre ids sample_run
  show ?thesis unfolding list_all_iff by simp
qed

text \<open>
  C3. When the query of the job identifiers of the file returns the empty sequence,
  \<open>requestContributionProof\<close> makes no HTTP call, and, the query once made, it fails with
  the error \<open>No jobs found for file\<close> (which contains "no jobs found", letter case
  apart) and records that message in the error state, which shows it from the next
  render on.
\<close>

theorem no_jobs_fails_without_http_call:
  assumes "requestContributionProof env fid k s = (r, s', t)"
    and "readContract_fileJobIds env fid = Inr []"
  shows "(\<forall>x \<in> set t. \<not> is_http_call (fst x)) \<and>
         (ReadFileJobIds fid \<in> fst ` set t \<longrightarrow>
            (\<exists>m. r = Inl (Error m) \<and> error (render s') = Some m \<and>
                 m = ''No jobs found for file'' \<and>
                 contains_text ''no jobs found'' (map lower_char m)))"
proof -
  from run_shape [OF assms(1)] obtain s1
    where p: "proofProcess env fid k (started s) = (r, s1, t)" by blast
  note s' = run_final(2) [OF assms(1)]
  have a: "\<forall>x \<in> set t. \<not> is_http_call (fst x)"
  proof
    fix x assume x: "x \<in> set t"
    show "\<not> is_http_call (fst x)"
    proof
      assume "is_http_call (fst x)"
      then obtain u b where "fst x = Fetch u b" by (cases "fst x") auto
      with x have "(Fetch u b, snd x) \<in> set t" by (metis prod.collapse)
      from proofProcess_fetch [OF p this] assms(2) show False by auto
    qed
  qed
  have b: "ReadFileJobIds fid \<in> fst ` set t \<longrightarrow>
            (\<exists>m. r = Inl (Error m) \<and> error (render s') = Some m \<and>
                 m = ''No jobs found for file'' \<and>
                 contains_text ''no jobs found'' (map lower_char m))"
  proof
    assume "ReadFileJobIds fid \<in> fst ` set t"
    then obtain st where "(ReadFileJobIds fid, st) \<in> set t" by force
    from proofProcess_no_jobs [OF p this assms(2)]
    have r: "r = Inl (Error ''No jobs found for file'')" .
    have "contains_text ''no jobs found'' (map lower_char ''No jobs found for file'')"
      by (simp add: lower_char_def)
    with r s' show "\<exists>m. r = Inl (Error m) \<and> error (render s') = Some m \<and>
        m = ''No jobs found for file'' \<and> contains_text ''no jobs found'' (map lower_char m)"
      by (simp add: recorded_message_def)
  qed
  from a b show ?thesis by blast
qed

theorem no_jobs_fails_without_http_call_witness:
  "readContract_fileJobIds env_no_jobs (Num 42) = Inr [] \<and>
   requestContributionProof env_no_jobs (Num 42) ''key'' idle =
     (Inl (Error ''No jobs found for file''), threw ''No jobs found for file'',
      [(WriteContract (Num 42), started idle), (WaitForReceipt ''0x7A5'', busy),
       (ReadFileJobIds (Num 42), busy)]) \<and>
   ReadFileJobIds (Num 42)
     \<in> fst ` set [(WriteContract (Num 42), started idle), (WaitForReceipt ''0x7A5'', busy),
                   (ReadFileJobIds (Num 42), busy)] \<and>
   list_all (\<lambda>x. \<not> is_http_call (fst x))
     [(WriteContract (Num 42), started idle), (WaitForReceipt ''0x7A5'', busy),
      (ReadFileJobIds (Num 42), busy)] \<and>
   error (render (threw ''No jobs found for file'')) = Some ''No jobs found for file'' \<and>
   contains_text ''no jobs found'' (map lower_char ''No jobs found for file'')"
proof -
  have q: "readContract_fileJobIds env_no_jobs (Num 42) = Inr []"
    by (simp add: env_no_jobs_def sample_env_def)
  from no_jobs_fails_without_http_call [OF no_jobs_run q] q no_jobs_run
  show ?thesis unfolding list_all_iff by simp
qed

text \<open>
  C4. Whenever a request is sent and the public key resolved for the executor of the job
  is present, the field \<open>encrypted_encryption_key\<close> of the request is the \<open>encryptionKey\<close>
  argument itself: the value does not depend on the public key, nothing is encrypted.
\<close>

theorem encrypted_field_is_the_raw_key:
  assumes "requestContributionProof env fid k s = (r, s', t)"
    and "(Fetch u b, st) \<in> set t"
    and "readContract_jobs env (job_id b) = Inr (Some j)"
    and "readContract_tees env (job_teeAddress j) = Inr (Some ti)"
    and "truthy (publicKey ti)"
  shows "encrypted_encryption_key b = Some k"
proof -
  from run_shape [OF assms(1)] obtain s1
    where "proofProcess env fid k (started s) = (r, s1, t)" by blast
  from proofProcess_fetch [OF this assms(2)] assms(3-5) show ?thesis
    by (auto simp add: add_key_fields)
qed

theorem encrypted_field_is_the_raw_key_witness:
  "requestContributionProof sample_env (Num 42) ''key'' idle =
     (Inr sample_result, returned,
      calls_to_fetch idle (sample_body (Some ''key'') None) @ [(ResponseJson, busy)]) \<and>
   (Fetch ''https://tee.example/RunProof'' (sample_body (Some ''key'') None), busy)
     \<in> set (calls_to_fetch idle (sample_body (Some ''key'') None) @ [(ResponseJson, busy)]) \<and>
   readContract_jobs sample_env (job_id (sample_body (Some ''key'') None))
     = Inr (Some \<lparr>job_teeAddress = ''0x7EE''\<rparr>) \<and>
   readContract_tees sample_env (job_teeAddress \<lparr>job_teeAddress = ''0x7EE''\<rparr>)
     = Inr (Some \<lparr>url = ''https://tee.example'', publicKey = ''04ab''\<rparr>) \<and>
   truthy (publicKey \<lparr>url = ''https://tee.example'', publicKey = ''04ab''\<rparr>) \<and>
   encrypted_encryption_key (sample_body (Some ''key'') None) = Some ''key''"
proof -
  have j: "readContract_jobs sample_env (job_id (sample_body (Some ''key'') None))
     = Inr (Some \<lparr>job_teeAddress = ''0x7EE''\<rparr>)"
    by (simp add: sample_env_def)
  have ti: "readContract_tees sample_env (job_teeAddress \<lparr>job_teeAddress = ''0x7EE''\<rparr>)
     = Inr (Some \<lparr>url = ''https://tee.example'', publicKey = ''04ab''\<rparr>)"
    by (simp add: sample_env_def)
  have pk: "truthy (publicKey \<lparr>url = ''https://tee.example'', publicKey = ''04ab''\<rparr>)"
    by (simp add: truthy_def)
  from encrypted_field_is_the_raw_key [OF sample_run fetch_in_calls j ti pk]
    sample_run fetch_in_calls j ti pk
  show ?thesis by blast
qed




text \<open>
  C6. When the executor answers the request with a status from 200 to 299 and
  \<open>response.json()\<close> resolves to a body, \<open>requestContributionProof\<close> returns a result whose
  \<open>proofData\<close> is that body, unchanged, whose \<open>txHash\<close> is the \<open>transactionHash\<close> of the
  receipt of the transaction it submitted, and whose \<open>jobId\<close> is the job of the request:
  for the status 200 and the body \<open>{"ok":true}\<close> the \<open>proofData\<close> is \<open>{"ok":true}\<close>. When
  \<open>response.json()\<close> rejects, the answer having no JSON body, the call throws that
  rejection and returns no result.
\<close>

theorem ok_status_returns_body_and_receipt_hash:
  assumes "requestContributionProof env fid k s = (r, s', t)"
    and "(Fetch u b, st) \<in> set t"
    and "fetch env u b = Inr resp"
    and "200 \<le> status resp \<and> status resp \<le> 299"
  shows "\<exists>h rc. writeContractAsync env fid = Inr h \<and>
           waitForTransactionReceipt env h = Inr rc \<and>
           (case body_json resp of
              Inl e \<Rightarrow> r = Inl e
            | Inr body \<Rightarrow>
                r = Inr \<lparr>fileId = fid, jobId = job_id b, proofData = body,
                         txHash = transactionHash rc\<rparr>)"
proof -
  from run_shape [OF assms(1)] obtain s1
    where "proofProcess env fid k (started s) = (r, s1, t)" by blast
  from proofProcess_fetch_outcome [OF this assms(2)] obtain h rc where
    h: "writeContractAsync env fid = Inr h"
    and rc: "waitForTransactionReceipt env h = Inr rc"
    and r: "r = (case fetch env u b of
                  Inl e \<Rightarrow> Inl e
                | Inr resp \<Rightarrow>
                    (case body_json resp of
                       Inl e \<Rightarrow> Inl e
                     | Inr body \<Rightarrow>
                         if ok resp
                         then Inr \<lparr>fileId = fid, jobId = job_id b,
                                   proofData = body, txHash = transactionHash rc\<rparr>
                         else Inl (Error (''TEE request failed: '' @ JSON_stringify body))))"
    by (elim exE conjE)
  from assms(4) have "ok resp" by (simp add: ok_def)
  with r assms(3)
  have "case body_json resp of
          Inl e \<Rightarrow> r = Inl e
        | Inr body \<Rightarrow>
            r = Inr \<lparr>fileId = fid, jobId = job_id b, proofData = body,
                     txHash = transactionHash rc\<rparr>"
    by (cases "body_json resp") simp_all
  with h rc show ?thesis by blast
qed

theorem ok_status_returns_body_and_receipt_hash_witness:
  "fetch sample_env ''https://tee.example/RunProof'' (sample_body (Some ''key'') None)
     = Inr \<lparr>status = 200, body_json = Inr (JObj [(''ok'', JBool True)])\<rparr> \<and>
   200 \<le> status \<lparr>status = 200, body_json = Inr (JObj [(''ok'', JBool True)])\<rparr> \<and>
   status \<lparr>status = 200, body_json = Inr (JObj [(''ok'', JBool True)])\<rparr> \<le> 299 \<and>
   requestContributionProof sample_env (Num 42) ''key'' idle =
     (Inr sample_result, returned,
      calls_to_fetch idle (sample_body (Some ''key'') None) @ [(ResponseJson, busy)]) \<and>
   writeContractAsync sample_env (Num 42) = Inr ''0x7A5'' \<and>
   waitForTransactionReceipt sample_env ''0x7A5'' = Inr \<lparr>transactionHash = ''0x7A5''\<rparr> \<and>
   sample_result =
     \<lparr>fileId = Num 42, jobId = job_id (sample_body (Some ''key'') None),
      proofData = JObj [(''ok'', JBool True)],
      txHash = transactionHash \<lparr>transactionHash = ''0x7A5''\<rparr>\<rparr>"
proof -
  let ?resp = "\<lparr>status = 200, body_json = Inr (JObj [(''ok'', JBool True)])\<rparr>"
  have f: "fetch sample_env ''https://tee.example/RunProof''
             (sample_body (Some ''key'') None) = Inr ?resp"
    by (simp add: sample_env_def)
  have st: "200 \<le> status ?resp \<and> status ?resp \<le> 299" by simp
  from ok_status_returns_body_and_receipt_hash [OF sample_run fetch_in_calls f st]
    sample_run f
  show ?thesis by (auto simp add: sample_env_def sample_result_def sample_body_def)
qed

text \<open>
  The claim as the specification has it, a result for every answer from 200 to 299,
  fails for the answer 204 without a body: \<open>response.json()\<close> of line 228 rejects and the
  call throws.
\<close>

theorem ok_status_without_json_counterexample:
  "fetch env_status_204_empty ''https://tee.example/RunProof''
     (sample_body (Some ''key'') None)
     = Inr \<lparr>status = 204, body_json = Inl (Error ''Unexpected end of JSON input'')\<rparr> \<and>
   ok \<lparr>status = 204, body_json = Inl (Error ''Unexpected end of JSON input'')\<rparr> \<and>
   requestContributionProof env_status_204_empty (Num 42) ''key'' idle =
     (Inl (Error ''Unexpected end of JSON input''), threw ''Unexpected end of JSON input'',
      calls_to_fetch idle (sample_body (Some ''key'') None) @ [(ResponseJson, busy)])"
  using status_204_empty_run
  by (simp add: env_status_204_empty_def sample_env_def ok_def)

text \<open>
  C7. Without an address of the account (undefined, or the empty string),
  \<open>requestContributionProof\<close> throws the \<open>Error\<close> \<open>Wallet not connected\<close> and has made no
  call at all by then: no contract write, no contract read, no HTTP call. It leaves
  the flag cleared and the message scheduled, and the next render shows them.
\<close>

theorem no_wallet_fails_before_any_call:
  assumes "\<not> truthy_opt (useAccount_address env)"
  shows "requestContributionProof env fid k s =
           (Inl (Error ''Wallet not connected''),
            s\<lparr>next_isProcessing := Some False,
              next_error := Some (Some ''Wallet not connected'')\<rparr>, []) \<and>
         render (s\<lparr>next_isProcessing := Some False,
                   next_error := Some (Some ''Wallet not connected'')\<rparr>) =
           \<lparr>isProcessing = False, error = Some ''Wallet not connected'',
            next_isProcessing = None, next_error = None\<rparr>"
  using assms
  by (simp add: requestContributionProof_def proofProcess_def on_error_def try_finally_def
        setIsProcessing_def setError_def prog_defs render_def)

theorem no_wallet_fails_before_any_call_witness:
  "\<not> truthy_opt (useAccount_address env_no_wallet) \<and>
   requestContributionProof env_no_wallet (Num 42) ''key'' idle =
     (Inl (Error ''Wallet not connected''),
      idle\<lparr>next_isProcessing := Some False,
           next_error := Some (Some ''Wallet not connected'')\<rparr>, []) \<and>
   render (idle\<lparr>next_isProcessing := Some False,
                next_error := Some (Some ''Wallet not connected'')\<rparr>)
     = failed ''Wallet not connected''"
proof -
  have a: "\<not> truthy_opt (useAccount_address env_no_wallet)"
    by (simp add: env_no_wallet_def sample_env_def truthy_opt_def)
  from no_wallet_fails_before_any_call [OF a, of "Num 42" "''key''" idle] a
  show ?thesis by (simp add: failed_def)
qed

text \<open>
  C8. The claim is that a missing job record (or one without an executor address) and a
  missing executor record reach the caller with messages of their own. The code does
  not do this: \<open>getTeeDetails\<close> throws both errors inside its own \<open>try\<close>, and its \<open>catch\<close>
  replaces whatever was thrown. A missing job, a job without an executor address, a
  missing executor record and a failed contract read all reach the caller as
  \<open>Failed to get TEE details for job\<close>.
\<close>

theorem tee_lookup_failures_share_one_message:
  "fst (requestContributionProof env_job_missing (Num 42) ''key'' idle)
     = Inl (Error ''Failed to get TEE details for job'') \<and>
   fst (requestContributionProof env_job_without_tee (Num 42) ''key'' idle)
     = Inl (Error ''Failed to get TEE details for job'') \<and>
   fst (requestContributionProof env_tee_missing (Num 42) ''key'' idle)
     = Inl (Error ''Failed to get TEE details for job'') \<and>
   fst (requestContributionProof env_read_fails (Num 42) ''key'' idle)
     = Inl (Error ''Failed to get TEE details for job'') \<and>
   fst (getTeeDetails env_job_missing (Num 5) busy)
     = Inl (Error ''Failed to get TEE details for job'') \<and>
   fst (getTeeDetails env_tee_missing (Num 5) busy)
     = Inl (Error ''Failed to get TEE details for job'')"
proof -
  have "fst (getTeeDetails env_job_missing (Num 5) busy)
          = Inl (Error ''Failed to get TEE details for job'')"
    by (simp add: getTeeDetails_def prog_defs env_job_missing_def sample_env_def)
  moreover have "fst (getTeeDetails env_tee_missing (Num 5) busy)
          = Inl (Error ''Failed to get TEE details for job'')"
    by (simp add: getTeeDetails_def prog_defs env_tee_missing_def sample_env_def truthy_def)
  ultimately show ?thesis
    by (simp only: job_missing_run job_without_tee_run tee_missing_run read_fails_run fst_conv
          simp_thms)
qed

text \<open>
  C9. In every call of \<open>requestContributionProof\<close> that runs alone, from any state, on
  return and on every throw: the flag \<open>isProcessing\<close> is scheduled true before the first
  call to a collaborator and scheduled false when the call ends. So the next render
  after any call to a collaborator has the flag set; a call to a collaborator made
  after React has rendered sees the flag set, and the indicator the hook exposes true;
  the first call to a collaborator is made before React can render and sees the flag
  as it was before; and the render that follows the end of the call has the flag
  cleared, the indicator then being whatever the wallet's \<open>isPending\<close> is.
\<close>

theorem processing_flag_scheduled_then_cleared:
  assumes "requestContributionProof env fid k s = (r, s', t)"
  shows "(\<forall>x \<in> set t. isProcessing (render (snd x))) \<and>
         (\<forall>x \<in> set t. next_isProcessing (snd x) = None \<longrightarrow>
            isProcessing (snd x) \<and> (\<forall>p. exposed_isProcessing (snd x) p)) \<and>
         (t \<noteq> [] \<longrightarrow> isProcessing (snd (hd t)) = isProcessing s) \<and>
         \<not> isProcessing (render s') \<and> (\<forall>p. exposed_isProcessing (render s') p = p)"
proof -
  from run_shape [OF assms] obtain s1
    where p: "proofProcess env fid k (started s) = (r, s1, t)" by blast
  have a: "isProcessing (render (snd x))" if "x \<in> set t" for x
    using steadyD(2) [OF steady_proofProcess p that] render_started(1) [of s] by simp
  have b: "isProcessing (snd x) \<and> (\<forall>p. exposed_isProcessing (snd x) p)"
    if "x \<in> set t" and "next_isProcessing (snd x) = None" for x
    using a [OF that(1)] that(2) by (simp add: render_def exposed_isProcessing_def)
  have c: "t \<noteq> [] \<longrightarrow> isProcessing (snd (hd t)) = isProcessing s"
    using proofProcess_first_call [OF p] by (simp add: started_def)
  from run_final(1) [OF assms] a b c show ?thesis
    by (simp add: exposed_isProcessing_def)
qed

theorem processing_flag_scheduled_then_cleared_witness:
  "requestContributionProof sample_env (Num 42) ''key'' idle =
     (Inr sample_result, returned,
      calls_to_fetch idle (sample_body (Some ''key'') None) @ [(ResponseJson, busy)]) \<and>
   list_all (\<lambda>x. isProcessing (render (snd x)))
     (calls_to_fetch idle (sample_body (Some ''key'') None) @ [(ResponseJson, busy)]) \<and>
   next_isProcessing busy = None \<and> isProcessing busy \<and>
   \<not> isProcessing (render returned) \<and>
   requestContributionProof env_tee_missing (Num 42) ''key'' idle =
     (Inl (Error ''Failed to get TEE details for job''),
      threw ''Failed to get TEE details for job'',
      calls_to_jobs idle @ [(ReadTees ''0x7EE'', busy)]) \<and>
   list_all (\<lambda>x. isProcessing (render (snd x)))
     (calls_to_jobs idle @ [(ReadTees ''0x7EE'', busy)]) \<and>
   \<not> isProcessing (render (threw ''Failed to get TEE details for job''))"
  using processing_flag_scheduled_then_cleared [OF sample_run]
    processing_flag_scheduled_then_cleared [OF tee_missing_run]
    sample_run tee_missing_run
  unfolding list_all_iff by (simp add: busy_def)

text \<open>
  The claim as the specification has it, the indicator true for the whole duration of
  the call, fails at the first call to a collaborator: \<open>writeContractAsync\<close> of line 149
  is called in the synchronous stretch of \<open>setIsProcessing(true)\<close> of line 140, before
  React renders, and the hook still exposes \<open>false\<close>.
\<close>

theorem processing_flag_counterexample:
  "requestContributionProof sample_env (Num 42) ''key'' idle =
     (Inr sample_result, returned,
      calls_to_fetch idle (sample_body (Some ''key'') None) @ [(ResponseJson, busy)]) \<and>
   hd (calls_to_fetch idle (sample_body (Some ''key'') None) @ [(ResponseJson, busy)])
     = (WriteContract (Num 42), started idle) \<and>
   \<not> isProcessing (started idle) \<and>
   \<not> exposed_isProcessing (started idle) False"
  using sample_run
  by (simp add: calls_to_fetch_def calls_to_jobs_def started_def idle_def
        exposed_isProcessing_def)

text \<open>
  C10. In every call of \<open>requestContributionProof\<close> that runs alone, from any state: the
  error state is scheduled to be \<open>null\<close> before the first call to a collaborator. So the
  next render after any call to a collaborator shows no error, and a call to a
  collaborator made after React has rendered sees none; the first call to a
  collaborator is made before React can render and sees the error as it was before.
  The outcome is the outcome of the \<open>try\<close> block: what the block throws, the function
  throws. The render that follows the end of the call shows \<open>null\<close> after a return, the
  message of the \<open>Error\<close> thrown, and \<open>Failed to process TEE proof\<close> when the thrown value
  is not an \<open>Error\<close>.
\<close>

theorem error_reset_scheduled_then_set_on_failure:
  assumes "requestContributionProof env fid k s = (r, s', t)"
  shows "(\<forall>x \<in> set t. error (render (snd x)) = None) \<and>
         (\<forall>x \<in> set t. next_error (snd x) = None \<longrightarrow> error (snd x) = None) \<and>
         (t \<noteq> [] \<longrightarrow> error (snd (hd t)) = error s) \<and>
         r = fst (proofProcess env fid k (started s)) \<and>
         error (render s') = (case r of
                                Inr res \<Rightarrow> None
                              | Inl (Error m) \<Rightarrow> Some m
                              | Inl (NonError v) \<Rightarrow> Some ''Failed to process TEE proof'')"
proof -
  from run_shape [OF assms] obtain s1
    where p: "proofProcess env fid k (started s) = (r, s1, t)" by blast
  have a: "error (render (snd x)) = None" if "x \<in> set t" for x
    using steadyD(2) [OF steady_proofProcess p that] render_started(2) [of s] by simp
  have b: "error (snd x) = None" if "x \<in> set t" and "next_error (snd x) = None" for x
    using a [OF that(1)] that(2) by (simp add: render_def)
  have c: "t \<noteq> [] \<longrightarrow> error (snd (hd t)) = error s"
    using proofProcess_first_call [OF p] by (simp add: started_def)
  have d: "error (render s') = (case r of
                                Inr res \<Rightarrow> None
                              | Inl (Error m) \<Rightarrow> Some m
                              | Inl (NonError v) \<Rightarrow> Some ''Failed to process TEE proof'')"
    using run_final(2) [OF assms]
    by (simp add: recorded_message_def split: sum.splits thrown.splits)
  from a b c d p show ?thesis by simp
qed

theorem error_reset_scheduled_then_set_on_failure_witness:
  "requestContributionProof env_fetch_rejects (Num 42) ''key'' (failed ''earlier failure'') =
     (Inl (NonError ''aborted''), threw ''Failed to process TEE proof'',
      calls_to_fetch (failed ''earlier failure'') (sample_body (Some ''key'') None)) \<and>
   list_all (\<lambda>x. error (render (snd x)) = None)
     (calls_to_fetch (failed ''earlier failure'') (sample_body (Some ''key'') None)) \<and>
   fst (proofProcess env_fetch_rejects (Num 42) ''key'' (started (failed ''earlier failure'')))
     = Inl (NonError ''aborted'') \<and>
   error (render (threw ''Failed to process TEE proof''))
     = Some ''Failed to process TEE proof''"
  using error_reset_scheduled_then_set_on_failure [OF fetch_rejects_run] fetch_rejects_run
  unfolding list_all_iff by simp

text \<open>
  The claim as the specification has it, the message of an earlier failure never to be
  seen during a later call, fails at the first call to a collaborator:
  \<open>writeContractAsync\<close> of line 149 is called in the synchronous stretch of
  \<open>setError(null)\<close> of line 141, before React renders, and the hook still exposes the
  earlier message.
\<close>

theorem earlier_error_counterexample:
  "requestContributionProof env_fetch_rejects (Num 42) ''key'' (failed ''earlier failure'') =
     (Inl (NonError ''aborted''), threw ''Failed to process TEE proof'',
      calls_to_fetch (failed ''earlier failure'') (sample_body (Some ''key'') None)) \<and>
   hd (calls_to_fetch (failed ''earlier failure'') (sample_body (Some ''key'') None))
     = (WriteContract (Num 42), started (failed ''earlier failure'')) \<and>
   error (started (failed ''earlier failure'')) = Some ''earlier failure''"
  using fetch_rejects_run
  by (simp add: calls_to_fetch_def calls_to_jobs_def started_def failed_def)

end
